theory Spec2Isabelle
  imports Complex_Main "HOL-Library.AList" "HOL-Library.Log_Nat"
begin

section \<open>Dates and times\<close>

text \<open>
  A JavaScript \<open>Date\<close> is a number of milliseconds since the epoch (UTC). The local
  calendar fields (\<open>getHours\<close>, \<open>setHours\<close>, \<open>format\<close>) are read through the offset
  \<open>tz\<close> of the browser's time zone, in milliseconds east of UTC; the offset is taken as
  constant over the days looked at (no daylight-saving change).
\<close>

type_synonym date = int

definition msPerMinute :: int where "msPerMinute = 60000"
definition msPerHour :: int where "msPerHour = 3600000"
definition msPerDay :: int where "msPerDay = 86400000"

definition addMinutes :: "date \<Rightarrow> int \<Rightarrow> date" where
  \<comment> \<open>date-fns \<open>addMinutes(date, amount)\<close>\<close>
  "addMinutes d amount = d + amount * msPerMinute"

definition getHours :: "int \<Rightarrow> date \<Rightarrow> int" where
  "getHours tz d = ((d + tz) mod msPerDay) div msPerHour"

definition getMinutes :: "int \<Rightarrow> date \<Rightarrow> int" where
  "getMinutes tz d = ((d + tz) mod msPerHour) div msPerMinute"

definition setHours :: "int \<Rightarrow> date \<Rightarrow> int \<Rightarrow> int \<Rightarrow> int \<Rightarrow> int \<Rightarrow> date" where
  \<comment> \<open>\<open>d.setHours(h, m, s, ms)\<close>: same local calendar day, new time of day\<close>
  "setHours tz d h m s ms =
     (d + tz) - (d + tz) mod msPerDay + h * msPerHour + m * msPerMinute + s * 1000 + ms - tz"

definition two_digits :: "int \<Rightarrow> string" where
  "two_digits n = [''0123456789'' ! nat (n div 10), ''0123456789'' ! nat (n mod 10)]"

definition format_HHmm :: "int \<Rightarrow> date \<Rightarrow> string" where
  \<comment> \<open>date-fns \<open>format(d, 'HH:mm')\<close>\<close>
  "format_HHmm tz d = two_digits (getHours tz d) @ '':'' @ two_digits (getMinutes tz d)"

section \<open>Slot generation (booking-form.tsx)\<close>

definition startHour :: int where "startHour = 9"
definition endHour :: int where "endHour = 18"
definition slotInterval :: int where "slotInterval = 30"

text \<open>
  The body of the inner loop of \<open>generateTimeSlots\<close>: one candidate start time.
  \<open>now\<close> is the value of \<open>new Date()\<close>, read as the same instant in every iteration.
\<close>

definition slotStep :: "int \<Rightarrow> date \<Rightarrow> date \<Rightarrow> int \<Rightarrow> int \<Rightarrow> int \<Rightarrow> string list \<Rightarrow> string list" where
  "slotStep tz now d duration hour minute slots =
     (let slotStart = setHours tz d hour minute 0 0;
          slotEnd = addMinutes slotStart duration
      in if getHours tz slotEnd \<le> endHour then
           (let minimumTime = addMinutes now 120
            in if slotStart > minimumTime then slots @ [format_HHmm tz slotStart] else slots)
         else slots)"

function minuteLoop :: "int \<Rightarrow> date \<Rightarrow> date \<Rightarrow> int \<Rightarrow> int \<Rightarrow> int \<Rightarrow> string list \<Rightarrow> string list" where
  "minuteLoop tz now d duration hour minute slots =
     (if minute < 60
      then minuteLoop tz now d duration hour (minute + slotInterval)
             (slotStep tz now d duration hour minute slots)
      else slots)"
  by pat_completeness auto
termination
  by (relation "measure (\<lambda>(tz, now, d, duration, hour, minute, slots). nat (60 - minute))")
     (auto simp: slotInterval_def)

function hourLoop :: "int \<Rightarrow> date \<Rightarrow> date \<Rightarrow> int \<Rightarrow> int \<Rightarrow> string list \<Rightarrow> string list" where
  "hourLoop tz now d duration hour slots =
     (if hour < endHour
      then hourLoop tz now d duration (hour + 1) (minuteLoop tz now d duration hour 0 slots)
      else slots)"
  by pat_completeness auto
termination
  by (relation "measure (\<lambda>(tz, now, d, duration, hour, slots). nat (endHour - hour))") auto

definition generateTimeSlots :: "int \<Rightarrow> date \<Rightarrow> date \<Rightarrow> int \<Rightarrow> string list" where
  "generateTimeSlots tz now d duration = hourLoop tz now d duration startHour []"


section \<open>The booking form (booking-form.tsx)\<close>

text \<open>
  A row of the \<open>services\<close> table, also the shape of a service the form receives. A
  nullable column is an \<open>option\<close>. In the form, numbers are taken as exact rationals: the
  price is a \<open>decimal(10, 2)\<close>.
\<close>

record service =
  svc_id :: string
  svc_salonId :: string
  svc_name :: string
  svc_description :: "string option"
  svc_durationMinutes :: int
  svc_price :: rat
  svc_tags :: "string list option"
  svc_requiresDeposit :: "bool option"
  svc_bufferBefore :: "int option"
  svc_bufferAfter :: "int option"
  svc_processingTime :: "int option"
  svc_isActive :: "bool option"
  svc_createdAt :: "date option"

text \<open>
  The component state of \<open>BookingForm\<close>: its five \<open>useState\<close> cells and the form values
  and errors the handlers below touch.
\<close>

record bookingForm =
  currentStep :: int
  selectedServices :: "string list"
  availableSlots :: "string list"
  totalDuration :: int
  totalPrice :: rat
  form_serviceIds :: "string list"
  form_date :: "date option"
  form_serviceIdsError :: "string option"

definition initialForm :: bookingForm where
  "initialForm =
     \<lparr>currentStep = 1, selectedServices = [], availableSlots = [], totalDuration = 0,
      totalPrice = 0, form_serviceIds = [], form_date = None, form_serviceIdsError = None\<rparr>"

definition findService :: "service list \<Rightarrow> string \<Rightarrow> service option" where
  \<comment> \<open>\<open>services.find(s => s.id === serviceId)\<close>\<close>
  "findService services serviceId = find (\<lambda>s. svc_id s = serviceId) services"

definition totalsEffect :: "service list \<Rightarrow> bookingForm \<Rightarrow> bookingForm" where
  \<comment> \<open>the effect "Calculate totals when services change"\<close>
  "totalsEffect services st =
     (let duration = foldl (\<lambda>total serviceId.
            total + (case findService services serviceId of
                       None \<Rightarrow> 0 | Some s \<Rightarrow> svc_durationMinutes s)) 0 (selectedServices st);
          price = foldl (\<lambda>total serviceId.
            total + (case findService services serviceId of
                       None \<Rightarrow> 0 | Some s \<Rightarrow> svc_price s)) 0 (selectedServices st)
      in st\<lparr>totalDuration := duration, totalPrice := price\<rparr>)"

definition slotsEffect :: "int \<Rightarrow> date \<Rightarrow> bookingForm \<Rightarrow> bookingForm" where
  \<comment> \<open>the effect "Generate available time slots"; \<open>watchedDate\<close> is \<open>form_date\<close>\<close>
  "slotsEffect tz now st =
     (case form_date st of
        Some watchedDate \<Rightarrow>
          if totalDuration st > 0
          then st\<lparr>availableSlots := generateTimeSlots tz now watchedDate (totalDuration st)\<rparr>
          else st
      | None \<Rightarrow> st)"

definition handleServiceToggle :: "string \<Rightarrow> bool \<Rightarrow> bookingForm \<Rightarrow> bookingForm" where
  "handleServiceToggle serviceId checked st =
     (let newSelection =
            (if checked then selectedServices st @ [serviceId]
             else filter (\<lambda>i. i \<noteq> serviceId) (selectedServices st))
      in st\<lparr>selectedServices := newSelection, form_serviceIds := newSelection\<rparr>)"

definition handleNextStep :: "bookingForm \<Rightarrow> bookingForm" where
  "handleNextStep st =
     (if currentStep st = 1 \<and> length (selectedServices st) = 0
      then st\<lparr>form_serviceIdsError := Some ''Veuillez selectionner au moins un service''\<rparr>
      else
        (let st1 = (if currentStep st = 1 then st\<lparr>form_serviceIdsError := None\<rparr> else st)
         in if currentStep st1 < 4 then st1\<lparr>currentStep := currentStep st1 + 1\<rparr> else st1))"

definition selectDate :: "date \<Rightarrow> bookingForm \<Rightarrow> bookingForm" where
  \<comment> \<open>the calendar's \<open>onSelect\<close>, which is \<open>field.onChange\<close> of the field \<open>date\<close>\<close>
  "selectDate d st = st\<lparr>form_date := Some d\<rparr>"

definition runEffects :: "int \<Rightarrow> date \<Rightarrow> service list \<Rightarrow> bookingForm \<Rightarrow> bookingForm" where
  \<comment> \<open>the two effects after a render, in the order of the component\<close>
  "runEffects tz now services st = slotsEffect tz now (totalsEffect services st)"

definition handlePrevStep :: "bookingForm \<Rightarrow> bookingForm" where
  "handlePrevStep st =
     (if currentStep st > 1 then st\<lparr>currentStep := currentStep st - 1\<rparr> else st)"

definition Math_round :: "rat \<Rightarrow> int" where
  \<comment> \<open>JavaScript \<open>Math.round\<close>: the nearest integer, a half rounded up\<close>
  "Math_round x = \<lfloor>x + 1 / 2\<rfloor>"

record bookingData =
  bd_salonId :: string
  bd_startTime :: date
  bd_endTime :: date
  bd_totalAmount :: rat
  bd_depositAmount :: rat
  bd_requiresPayment :: bool

definition requiresDeposit :: "service list \<Rightarrow> string list \<Rightarrow> bool" where
  \<comment> \<open>\<open>selectedServices.some(...)\<close> in \<open>handleFormSubmit\<close>\<close>
  "requiresDeposit services selected =
     list_ex (\<lambda>serviceId.
        case findService services serviceId of
          None \<Rightarrow> False | Some s \<Rightarrow> svc_requiresDeposit s = Some True) selected"

text \<open>
  \<open>handleFormSubmit\<close>, for the submitted date and the two numbers \<open>hours\<close>, \<open>minutes\<close>
  read from \<open>data.timeSlot\<close>. The result is the \<open>bookingData\<close> passed to \<open>onSubmit\<close>
  (its computed fields; the instants are kept as dates, not rendered as ISO strings).
\<close>

definition handleFormSubmit ::
    "int \<Rightarrow> service list \<Rightarrow> string \<Rightarrow> bookingForm \<Rightarrow> date \<Rightarrow> int \<Rightarrow> int \<Rightarrow> bookingData" where
  "handleFormSubmit tz services salonId st selectedDate hours minutes =
     (let startTime = setHours tz selectedDate hours minutes 0 0;
          endTime = addMinutes startTime (totalDuration st);
          requires = requiresDeposit services (selectedServices st);
          depositAmount =
            (if requires then of_int (Math_round (totalPrice st * (2 / 10) * 100)) / 100 else 0)
      in \<lparr>bd_salonId = salonId, bd_startTime = startTime, bd_endTime = endTime,
          bd_totalAmount = totalPrice st, bd_depositAmount = depositAmount,
          bd_requiresPayment = requires\<rparr>)"

definition round_to_2 :: "rat \<Rightarrow> rat" where
  \<comment> \<open>the specification's \<open>round(x, 2)\<close>: \<open>x\<close> rounded to two decimal places\<close>
  "round_to_2 x = of_int \<lfloor>x * 100 + 1 / 2\<rfloor> / 100"

section \<open>Storage (storage.ts)\<close>

record stylist =
  sty_id :: string
  sty_salonId :: string
  sty_firstName :: string
  sty_lastName :: string
  sty_email :: "string option"
  sty_phone :: "string option"
  sty_photoUrl :: "string option"
  sty_specialties :: "string list option"
  sty_schedule :: "string option"
  sty_vacations :: "string option"
  sty_isActive :: "bool option"
  sty_createdAt :: "date option"

record appointment =
  apt_id :: string
  apt_salonId :: string
  apt_clientId :: string
  apt_stylistId :: "string option"
  apt_serviceIds :: "string list"
  apt_startTime :: date
  apt_endTime :: date
  apt_status :: string
  apt_channel :: "string option"
  apt_totalAmount :: rat
  apt_depositAmount :: "rat option"
  apt_paymentStatus :: "string option"
  apt_stripePaymentIntentId :: "string option"
  apt_notes :: "string option"
  apt_cancelledAt :: "date option"
  apt_cancellationReason :: "string option"
  apt_remindersSent :: "(string \<times> string) list option"
  apt_createdAt :: "date option"
  apt_updatedAt :: "date option"

record review =
  rev_id :: string
  rev_salonId :: string
  rev_clientId :: string
  rev_appointmentId :: "string option"
  rev_stylistId :: "string option"
  rev_rating :: int
  rev_comment :: "string option"
  rev_isPublic :: "bool option"
  rev_response :: "string option"
  rev_createdAt :: "date option"

text \<open>
  The tables the storage operations below read and write, each a list of rows in the
  order the database returns them. The JSON columns of a stylist are kept as text.
\<close>

record database =
  db_services :: "service list"
  db_stylists :: "stylist list"
  db_appointments :: "appointment list"
  db_reviews :: "review list"

definition update_where :: "('r \<Rightarrow> bool) \<Rightarrow> ('r \<Rightarrow> 'r) \<Rightarrow> 'r list \<Rightarrow> 'r list" where
  \<comment> \<open>\<open>db.update(table).set(...).where(cond)\<close>: the table afterwards\<close>
  "update_where cond f rows = map (\<lambda>r. if cond r then f r else r) rows"

definition returning :: "('r \<Rightarrow> bool) \<Rightarrow> ('r \<Rightarrow> 'r) \<Rightarrow> 'r list \<Rightarrow> 'r list" where
  \<comment> \<open>\<open>.returning()\<close>: the updated rows\<close>
  "returning cond f rows = map f (filter cond rows)"

definition first_row :: "'r list \<Rightarrow> 'r option" where
  \<comment> \<open>\<open>const [row] = ...\<close>: \<open>undefined\<close> when there is none\<close>
  "first_row rows = (case rows of [] \<Rightarrow> None | r # _ \<Rightarrow> Some r)"

definition deleteService :: "string \<Rightarrow> database \<Rightarrow> database" where
  "deleteService i db =
     db\<lparr>db_services :=
          update_where (\<lambda>s. svc_id s = i) (\<lambda>s. s\<lparr>svc_isActive := Some False\<rparr>) (db_services db)\<rparr>"

definition deleteStylist :: "string \<Rightarrow> database \<Rightarrow> database" where
  "deleteStylist i db =
     db\<lparr>db_stylists :=
          update_where (\<lambda>s. sty_id s = i) (\<lambda>s. s\<lparr>sty_isActive := Some False\<rparr>) (db_stylists db)\<rparr>"


text \<open>
  \<open>Partial<InsertAppointment>\<close>: every column but \<open>id\<close>, \<open>createdAt\<close> and \<open>updatedAt\<close>,
  each one absent (\<open>None\<close>) or given. A nullable column that is given may be \<open>null\<close>.
\<close>

record appointmentPatch =
  p_salonId :: "string option"
  p_clientId :: "string option"
  p_stylistId :: "string option option"
  p_serviceIds :: "string list option"
  p_startTime :: "date option"
  p_endTime :: "date option"
  p_status :: "string option"
  p_channel :: "string option option"
  p_totalAmount :: "rat option"
  p_depositAmount :: "rat option option"
  p_paymentStatus :: "string option option"
  p_stripePaymentIntentId :: "string option option"
  p_notes :: "string option option"
  p_cancelledAt :: "date option option"
  p_cancellationReason :: "string option option"
  p_remindersSent :: "(string \<times> string) list option option"

definition given :: "'a option \<Rightarrow> 'a \<Rightarrow> 'a" where
  "given new old = (case new of None \<Rightarrow> old | Some v \<Rightarrow> v)"

definition applyPatch :: "appointmentPatch \<Rightarrow> date \<Rightarrow> appointment \<Rightarrow> appointment" where
  \<comment> \<open>\<open>.set({ ...appointment, updatedAt: new Date() })\<close> on one row\<close>
  "applyPatch p now a =
     a\<lparr>apt_salonId := given (p_salonId p) (apt_salonId a),
       apt_clientId := given (p_clientId p) (apt_clientId a),
       apt_stylistId := given (p_stylistId p) (apt_stylistId a),
       apt_serviceIds := given (p_serviceIds p) (apt_serviceIds a),
       apt_startTime := given (p_startTime p) (apt_startTime a),
       apt_endTime := given (p_endTime p) (apt_endTime a),
       apt_status := given (p_status p) (apt_status a),
       apt_channel := given (p_channel p) (apt_channel a),
       apt_totalAmount := given (p_totalAmount p) (apt_totalAmount a),
       apt_depositAmount := given (p_depositAmount p) (apt_depositAmount a),
       apt_paymentStatus := given (p_paymentStatus p) (apt_paymentStatus a),
       apt_stripePaymentIntentId :=
         given (p_stripePaymentIntentId p) (apt_stripePaymentIntentId a),
       apt_notes := given (p_notes p) (apt_notes a),
       apt_cancelledAt := given (p_cancelledAt p) (apt_cancelledAt a),
       apt_cancellationReason := given (p_cancellationReason p) (apt_cancellationReason a),
       apt_remindersSent := given (p_remindersSent p) (apt_remindersSent a),
       apt_updatedAt := Some now\<rparr>"

definition updateAppointment ::
    "string \<Rightarrow> appointmentPatch \<Rightarrow> date \<Rightarrow> database \<Rightarrow> database \<times> appointment option" where
  "updateAppointment i p now db =
     (db\<lparr>db_appointments :=
          update_where (\<lambda>a. apt_id a = i) (applyPatch p now) (db_appointments db)\<rparr>,
      first_row (returning (\<lambda>a. apt_id a = i) (applyPatch p now) (db_appointments db)))"

definition setCancelled :: "string \<Rightarrow> date \<Rightarrow> date \<Rightarrow> appointment \<Rightarrow> appointment" where
  \<comment> \<open>the \<open>.set({...})\<close> of \<open>cancelAppointment\<close> on one row; the two \<open>new Date()\<close> are
      \<open>now1\<close> and \<open>now2\<close>\<close>
  "setCancelled reason now1 now2 a =
     a\<lparr>apt_status := ''cancelled'',
       apt_cancelledAt := Some now1,
       apt_cancellationReason := Some reason,
       apt_updatedAt := Some now2\<rparr>"

definition cancelAppointment ::
    "string \<Rightarrow> string \<Rightarrow> date \<Rightarrow> date \<Rightarrow> database \<Rightarrow> database \<times> appointment option" where
  "cancelAppointment i reason now1 now2 db =
     (db\<lparr>db_appointments :=
          update_where (\<lambda>a. apt_id a = i) (setCancelled reason now1 now2) (db_appointments db)\<rparr>,
      first_row (returning (\<lambda>a. apt_id a = i) (setCancelled reason now1 now2)
                   (db_appointments db)))"

subsection \<open>Routes (routes.ts)\<close>

text \<open>
  The two routes that change an appointment, as calls of the storage (the answers
  that report a failure of the database are left out). The body of a \<open>PATCH\<close> is
  passed on unchecked; \<open>reason || "Cancelled by client"\<close> replaces a missing or empty
  reason.
\<close>

definition patchAppointmentRoute ::
    "string \<Rightarrow> appointmentPatch \<Rightarrow> date \<Rightarrow> database \<Rightarrow> database \<times> appointment option" where
  "patchAppointmentRoute i updates now db = updateAppointment i updates now db"

definition cancelAppointmentRoute ::
    "string \<Rightarrow> string option \<Rightarrow> date \<Rightarrow> date \<Rightarrow> database \<Rightarrow> database \<times> appointment option" where
  "cancelAppointmentRoute i reason now1 now2 db =
     cancelAppointment i
       (case reason of
          None \<Rightarrow> ''Cancelled by client''
        | Some r \<Rightarrow> if r = [] then ''Cancelled by client'' else r)
       now1 now2 db"

subsection \<open>Metrics\<close>

text \<open>
  A finite JavaScript number is an IEEE 754 double: a rational \<open>m * 2^e\<close> with
  \<open>|m| < 2^53\<close>. An operation returns the exact result rounded to the nearest double,
  a tie going to the even significand. The exponent is left unbounded: the amounts are
  \<open>decimal(10, 2)\<close> and the ratings 32-bit integers, far from the overflow to
  \<open>Infinity\<close> and from the subnormal numbers.
\<close>

definition round_half_even :: "rat \<Rightarrow> int" where
  "round_half_even q =
     (let f = \<lfloor>q\<rfloor>; r = q - of_int f
      in if r < 1 / 2 then f else if r > 1 / 2 then f + 1 else if even f then f else f + 1)"

definition binary_exponent :: "rat \<Rightarrow> int" where
  \<comment> \<open>for \<open>x \<noteq> 0\<close>, the \<open>e\<close> with \<open>2^e \<le> |x| < 2^(e + 1)\<close>\<close>
  "binary_exponent x =
     (let (p, q) = quotient_of \<bar>x\<bar>; k = bitlen p - bitlen q
      in if of_int p \<ge> (2 powi k) * (of_int q :: rat) then k else k - 1)"

definition to_double :: "rat \<Rightarrow> rat" where
  \<comment> \<open>the double nearest to \<open>x\<close>\<close>
  "to_double x =
     (if x = 0 then 0
      else let ulp = 2 powi (binary_exponent x - 52)
           in of_int (round_half_even (x / ulp)) * ulp)"

definition js_add :: "rat \<Rightarrow> rat \<Rightarrow> rat" where
  \<comment> \<open>\<open>a + b\<close> on numbers\<close>
  "js_add a b = to_double (a + b)"

definition js_div :: "rat \<Rightarrow> rat \<Rightarrow> rat" where
  \<comment> \<open>\<open>a / b\<close> on numbers, for \<open>b \<noteq> 0\<close>\<close>
  "js_div a b = to_double (a / b)"

definition Number_decimal :: "rat \<Rightarrow> rat" where
  \<comment> \<open>\<open>Number(s)\<close> for the string \<open>s\<close> of a decimal column of value \<open>x\<close>\<close>
  "Number_decimal x = to_double x"

definition Number_int :: "int \<Rightarrow> rat" where
  \<comment> \<open>the number an integer column is read as\<close>
  "Number_int n = to_double (of_int n)"

record metrics =
  totalAppointments :: nat
  totalRevenue :: rat
  noShows :: nat
  completedAppointments :: nat
  averageRating :: rat
  topServices :: "(string \<times> nat) list"

text \<open>
  A JavaScript \<open>Map\<close> keeps its keys in insertion order, and setting a key it has
  keeps the key's place: an association list under \<open>AList.update\<close>, read by \<open>map_of\<close>.
\<close>

definition appointmentsInRange :: "database \<Rightarrow> string \<Rightarrow> date \<Rightarrow> date \<Rightarrow> appointment list" where
  "appointmentsInRange db salonId startDate endDate =
     filter (\<lambda>a. apt_salonId a = salonId \<and> apt_startTime a \<ge> startDate
                   \<and> apt_startTime a \<le> endDate) (db_appointments db)"

definition serviceMap :: "database \<Rightarrow> string \<Rightarrow> (string \<times> string) list" where
  \<comment> \<open>\<open>new Map(salonServices.map(s => [s.id, s.name]))\<close>\<close>
  "serviceMap db salonId =
     foldl (\<lambda>m s. AList.update (svc_id s) (svc_name s) m) []
       (filter (\<lambda>s. svc_salonId s = salonId) (db_services db))"

definition serviceNameOf :: "(string \<times> string) list \<Rightarrow> string \<Rightarrow> string" where
  \<comment> \<open>\<open>serviceMap.get(serviceId) || 'Unknown Service'\<close>: the empty name is falsy too\<close>
  "serviceNameOf m serviceId =
     (case map_of m serviceId of
        None \<Rightarrow> ''Unknown Service''
      | Some n \<Rightarrow> if n = [] then ''Unknown Service'' else n)"

definition getCount :: "(string \<times> nat) list \<Rightarrow> string \<Rightarrow> nat" where
  \<comment> \<open>\<open>serviceCount.get(serviceName) || 0\<close>\<close>
  "getCount serviceCount serviceName =
     (case map_of serviceCount serviceName of None \<Rightarrow> 0 | Some c \<Rightarrow> c)"

definition countService ::
    "(string \<times> string) list \<Rightarrow> (string \<times> nat) list \<Rightarrow> string \<Rightarrow> (string \<times> nat) list" where
  \<comment> \<open>the body of the inner \<open>forEach\<close>\<close>
  "countService m serviceCount serviceId =
     (let serviceName = serviceNameOf m serviceId
      in AList.update serviceName (getCount serviceCount serviceName + 1) serviceCount)"

definition serviceCounts ::
    "(string \<times> string) list \<Rightarrow> appointment list \<Rightarrow> (string \<times> nat) list" where
  "serviceCounts m apts =
     foldl (\<lambda>serviceCount apt. foldl (countService m) serviceCount (apt_serviceIds apt)) [] apts"

definition sortByCountDesc :: "(string \<times> nat) list \<Rightarrow> (string \<times> nat) list" where
  \<comment> \<open>\<open>.sort((a, b) => b.count - a.count)\<close>; \<open>Array.prototype.sort\<close> is stable\<close>
  "sortByCountDesc es = sort_key (\<lambda>e. - int (snd e)) es"

definition getSalonMetrics :: "database \<Rightarrow> string \<Rightarrow> date \<Rightarrow> date \<Rightarrow> metrics" where
  "getSalonMetrics db salonId startDate endDate =
     (let inRange = appointmentsInRange db salonId startDate endDate;
          revenue = foldl (\<lambda>sum apt. js_add sum (Number_decimal (apt_totalAmount apt))) 0
                      (filter (\<lambda>apt. apt_status apt = ''completed'') inRange);
          salonReviews = filter (\<lambda>r. rev_salonId r = salonId) (db_reviews db);
          rating =
            (if length salonReviews > 0
             then js_div (foldl (\<lambda>sum r. js_add sum (Number_int (rev_rating r))) 0 salonReviews)
                    (of_nat (length salonReviews))
             else 0);
          serviceCount = serviceCounts (serviceMap db salonId) inRange
      in \<lparr>totalAppointments = length inRange,
          totalRevenue = revenue,
          noShows = length (filter (\<lambda>apt. apt_status apt = ''no_show'') inRange),
          completedAppointments =
            length (filter (\<lambda>apt. apt_status apt = ''completed'') inRange),
          averageRating = rating,
          topServices = take 5 (sortByCountDesc serviceCount)\<rparr>)"

text \<open>Rows for examples: every column not named is at its default.\<close>

definition mkAppointment :: "string \<Rightarrow> string \<Rightarrow> string list \<Rightarrow> date \<Rightarrow> string \<Rightarrow> rat \<Rightarrow> appointment" where
  "mkAppointment i salonId serviceIds startTime status amount =
     \<lparr>apt_id = i, apt_salonId = salonId, apt_clientId = ''client'', apt_stylistId = None,
      apt_serviceIds = serviceIds, apt_startTime = startTime,
      apt_endTime = addMinutes startTime 30, apt_status = status, apt_channel = Some ''form'',
      apt_totalAmount = amount, apt_depositAmount = None, apt_paymentStatus = Some ''pending'',
      apt_stripePaymentIntentId = None, apt_notes = None, apt_cancelledAt = None,
      apt_cancellationReason = None, apt_remindersSent = None, apt_createdAt = Some 0,
      apt_updatedAt = Some 0\<rparr>"

definition mkService :: "string \<Rightarrow> string \<Rightarrow> string \<Rightarrow> int \<Rightarrow> rat \<Rightarrow> bool \<Rightarrow> service" where
  "mkService i salonId name minutes price deposit =
     \<lparr>svc_id = i, svc_salonId = salonId, svc_name = name, svc_description = None,
      svc_durationMinutes = minutes, svc_price = price, svc_tags = None,
      svc_requiresDeposit = Some deposit, svc_bufferBefore = Some 0, svc_bufferAfter = Some 0,
      svc_processingTime = Some 0, svc_isActive = Some True, svc_createdAt = Some 0\<rparr>"

definition mkStylist :: "string \<Rightarrow> string \<Rightarrow> string \<Rightarrow> stylist" where
  "mkStylist i salonId name =
     \<lparr>sty_id = i, sty_salonId = salonId, sty_firstName = name, sty_lastName = name,
      sty_email = None, sty_phone = None, sty_photoUrl = None, sty_specialties = None,
      sty_schedule = None, sty_vacations = None, sty_isActive = Some True,
      sty_createdAt = Some 0\<rparr>"

definition mkReview :: "string \<Rightarrow> string \<Rightarrow> int \<Rightarrow> review" where
  "mkReview i salonId rating =
     \<lparr>rev_id = i, rev_salonId = salonId, rev_clientId = ''client'', rev_appointmentId = None,
      rev_stylistId = None, rev_rating = rating, rev_comment = None, rev_isPublic = Some True,
      rev_response = None, rev_createdAt = Some 0\<rparr>"

definition noPatch :: appointmentPatch where
  "noPatch =
     \<lparr>p_salonId = None, p_clientId = None, p_stylistId = None, p_serviceIds = None,
      p_startTime = None, p_endTime = None, p_status = None, p_channel = None,
      p_totalAmount = None, p_depositAmount = None, p_paymentStatus = None,
      p_stripePaymentIntentId = None, p_notes = None, p_cancelledAt = None,
      p_cancellationReason = None, p_remindersSent = None\<rparr>"

section \<open>Notions for the statements\<close>

text \<open>
  The start times \<open>generateTimeSlots\<close> tries, in the order of its two loops; the two
  tests a start time must pass to be returned; and the minute of the local day of an
  instant (540 is 09:00, 1080 is 18:00).
\<close>

definition candidateStarts :: "int \<Rightarrow> date \<Rightarrow> date list" where
  "candidateStarts tz d =
     concat (map (\<lambda>hour. [setHours tz d hour 0 0 0, setHours tz d hour 30 0 0])
       [startHour..endHour - 1])"

definition slotAccepted :: "int \<Rightarrow> date \<Rightarrow> int \<Rightarrow> date \<Rightarrow> bool" where
  "slotAccepted tz now duration slotStart \<longleftrightarrow>
     getHours tz (addMinutes slotStart duration) \<le> endHour \<and> slotStart > addMinutes now 120"

definition minuteOfDay :: "int \<Rightarrow> date \<Rightarrow> int" where
  "minuteOfDay tz t = getHours tz t * 60 + getMinutes tz t"

text \<open>
  A list of amounts adds up without rounding, from the accumulator \<open>acc\<close> on, when
  every amount and every partial sum is a double.
\<close>

fun exactly_summable :: "rat \<Rightarrow> rat list \<Rightarrow> bool" where
  "exactly_summable acc [] = True"
| "exactly_summable acc (x # xs) =
     (to_double x = x \<and> to_double (acc + x) = acc + x \<and> exactly_summable (acc + x) xs)"

section \<open>Example data\<close>

definition exampleCatalog :: database where
  "exampleCatalog =
     \<lparr>db_services = [mkService ''A'' ''s1'' ''Coupe'' 30 25 False,
                      mkService ''B'' ''s1'' ''Couleur'' 60 80 True],
      db_stylists = [mkStylist ''y1'' ''s1'' ''Lea'', mkStylist ''y2'' ''s1'' ''Max''],
      db_appointments = [mkAppointment ''a1'' ''s1'' [''A'', ''B''] 100 ''completed'' 105],
      db_reviews = [mkReview ''r1'' ''s1'' 5]\<rparr>"

text \<open>Three completed appointments of 50, 30 and 20 and two cancelled ones of 40.\<close>

definition revenueScenario :: database where
  "revenueScenario =
     \<lparr>db_services = [mkService ''A'' ''s1'' ''Coupe'' 30 25 False],
      db_stylists = [],
      db_appointments =
        [mkAppointment ''a1'' ''s1'' [''A''] 100 ''completed'' 50,
         mkAppointment ''a2'' ''s1'' [''A''] 200 ''cancelled'' 40,
         mkAppointment ''a3'' ''s1'' [''A''] 300 ''completed'' 30,
         mkAppointment ''a4'' ''s1'' [''A''] 400 ''cancelled'' 40,
         mkAppointment ''a5'' ''s1'' [''A''] 500 ''completed'' 20],
      db_reviews = []\<rparr>"

text \<open>Two completed appointments of 0.10 and 0.20.\<close>

definition roundingScenario :: database where
  "roundingScenario =
     \<lparr>db_services = [mkService ''A'' ''s1'' ''Coupe'' 30 25 False],
      db_stylists = [],
      db_appointments =
        [mkAppointment ''a1'' ''s1'' [''A''] 100 ''completed'' (10 / 100),
         mkAppointment ''a2'' ''s1'' [''A''] 200 ''completed'' (20 / 100)],
      db_reviews = []\<rparr>"

text \<open>One appointment \<open>a1\<close> in the given status.\<close>

definition lifecycleDb :: "string \<Rightarrow> database" where
  "lifecycleDb status =
     \<lparr>db_services = [], db_stylists = [],
      db_appointments = [mkAppointment ''a1'' ''s1'' [''A''] 100 status 50],
      db_reviews = []\<rparr>"

text \<open>A salon with two reviews and no appointment.\<close>

definition reviewedSalon :: database where
  "reviewedSalon =
     \<lparr>db_services = [], db_stylists = [], db_appointments = [],
      db_reviews = [mkReview ''r1'' ''s1'' 5, mkReview ''r2'' ''s1'' 4]\<rparr>"

text \<open>
  Instants of the slot examples, in milliseconds since the epoch: day 20104 is
  2025-01-16 and day 20108 is 2025-01-20 (UTC midnight); \<open>now_0700Z\<close> is
  2025-01-16T07:00:00.000Z.
\<close>

definition date_2025_01_16 :: date where "date_2025_01_16 = 20104 * 86400000"
definition date_2025_01_20 :: date where "date_2025_01_20 = 20108 * 86400000"
definition now_0700Z :: date where "now_0700Z = 20104 * 86400000 + 7 * 3600000"

text \<open>
  The names under which \<open>getSalonMetrics\<close> counts the service ids of the appointments
  of the salon that start in the range, one name for each occurrence of an id, whatever
  the status of the appointment.
\<close>

definition serviceNamesInRange :: "database \<Rightarrow> string \<Rightarrow> date \<Rightarrow> date \<Rightarrow> string list" where
  "serviceNamesInRange db salonId startDate endDate =
     concat (map (\<lambda>a. map (serviceNameOf (serviceMap db salonId)) (apt_serviceIds a))
       (filter (\<lambda>a. apt_salonId a = salonId \<and> startDate \<le> apt_startTime a
                     \<and> apt_startTime a \<le> endDate) (db_appointments db)))"

text \<open>
  Seven services; \<open>A\<close> is booked four times (twice in cancelled or missed
  appointments), the others once or twice, one id is unknown, and one appointment is
  out of the range.
\<close>

definition histogramScenario :: database where
  "histogramScenario =
     \<lparr>db_services =
        [mkService ''A'' ''s1'' ''Coupe'' 30 25 False,
         mkService ''B'' ''s1'' ''Couleur'' 60 80 True,
         mkService ''C'' ''s1'' ''Brushing'' 30 20 False,
         mkService ''D'' ''s1'' ''Barbe'' 15 12 False,
         mkService ''E'' ''s1'' ''Soin'' 20 18 False,
         mkService ''F'' ''s1'' ''Lissage'' 90 120 True,
         mkService ''G'' ''s2'' ''Autre salon'' 30 10 False],
      db_stylists = [],
      db_appointments =
        [mkAppointment ''a1'' ''s1'' [''B'', ''A''] 100 ''completed'' 105,
         mkAppointment ''a2'' ''s1'' [''A'', ''C''] 200 ''cancelled'' 45,
         mkAppointment ''a3'' ''s1'' [''A'', ''D'', ''E''] 300 ''no_show'' 55,
         mkAppointment ''a4'' ''s1'' [''F'', ''A'', ''C''] 400 ''confirmed'' 165,
         mkAppointment ''a5'' ''s1'' [''Z'', ''E''] 500 ''pending'' 18,
         mkAppointment ''a6'' ''s1'' [''B'', ''B''] 5000 ''completed'' 160,
         mkAppointment ''a7'' ''s2'' [''G''] 100 ''completed'' 10],
      db_reviews = []\<rparr>"

text \<open>Forms for the deposit and slot examples.\<close>

definition freeDepositService :: "service list" where
  "freeDepositService = [mkService ''F'' ''s1'' ''Conseil'' 30 0 True]"

definition pricedServices :: "service list" where
  "pricedServices = [mkService ''A'' ''s1'' ''Coupe'' 30 25 False,
                     mkService ''B'' ''s1'' ''Couleur'' 60 (8099 / 100) True]"

definition formWith :: "service list \<Rightarrow> string list \<Rightarrow> bookingForm" where
  \<comment> \<open>the form after the given services are ticked and the totals recomputed\<close>
  "formWith services ids =
     totalsEffect services (foldl (\<lambda>st i. handleServiceToggle i True st) initialForm ids)"

definition staleForm :: bookingForm where
  \<comment> \<open>a service is ticked, a date is chosen at step 3, and back at step 1 the service
      is unticked; the effects run after each change\<close>
  "staleForm =
     (let services = [mkService ''A'' ''s1'' ''Coupe'' 30 25 False];
          st1 = runEffects 0 now_0700Z services (handleServiceToggle ''A'' True initialForm);
          st2 = handleNextStep (handleNextStep st1);
          st3 = runEffects 0 now_0700Z services (selectDate date_2025_01_20 st2);
          st4 = handlePrevStep (handlePrevStep st3)
      in runEffects 0 now_0700Z services (handleServiceToggle ''A'' False st4))"

section \<open>Properties\<close>

subsection \<open>Slot generation\<close>

text \<open>
  What \<open>generateTimeSlots\<close> returns: the formatted start times, in order, of the
  candidates that pass its two tests. Every returned slot starts between 09:00 and
  17:30 of the local day and later than two hours from now, and the hour of its
  end is at most 18.
\<close>

lemma slotStep_eq:
  "slotStep tz now d duration hour minute slots =
     slots @ map (format_HHmm tz)
       (filter (slotAccepted tz now duration) [setHours tz d hour minute 0 0])"
  by (simp add: slotStep_def slotAccepted_def Let_def)

lemma minuteLoop_done: "60 \<le> minute \<Longrightarrow> minuteLoop tz now d duration hour minute slots = slots"
  by (subst minuteLoop.simps) simp

lemma minuteLoop_eq:
  "minuteLoop tz now d duration hour 0 slots =
     slots @ map (format_HHmm tz)
       (filter (slotAccepted tz now duration)
          [setHours tz d hour 0 0 0, setHours tz d hour 30 0 0])"
proof -
  have "minuteLoop tz now d duration hour 0 slots =
      minuteLoop tz now d duration hour 30 (slotStep tz now d duration hour 0 slots)"
    by (subst minuteLoop.simps) (simp add: slotInterval_def)
  also have "\<dots> = minuteLoop tz now d duration hour 60
      (slotStep tz now d duration hour 30 (slotStep tz now d duration hour 0 slots))"
    by (subst minuteLoop.simps) (simp add: slotInterval_def)
  also have "\<dots> = slotStep tz now d duration hour 30 (slotStep tz now d duration hour 0 slots)"
    by (simp add: minuteLoop_done)
  finally show ?thesis
    by (simp add: slotStep_eq)
qed

lemma hourLoop_eq:
  "hour \<le> endHour \<Longrightarrow>
   hourLoop tz now d duration hour slots =
     slots @ map (format_HHmm tz)
       (filter (slotAccepted tz now duration)
          (concat (map (\<lambda>h. [setHours tz d h 0 0 0, setHours tz d h 30 0 0])
             [hour..endHour - 1])))"
proof (induction tz now d duration hour slots rule: hourLoop.induct)
  case (1 tz now d duration hour slots)
  show ?case
  proof (cases "hour < endHour")
    case True
    then have range: "[hour..endHour - 1] = hour # [hour + 1..endHour - 1]"
      by (simp add: upto_rec1)
    from True have "hourLoop tz now d duration hour slots =
        hourLoop tz now d duration (hour + 1) (minuteLoop tz now d duration hour 0 slots)"
      by (subst hourLoop.simps) simp
    also have "\<dots> = minuteLoop tz now d duration hour 0 slots @ map (format_HHmm tz)
       (filter (slotAccepted tz now duration)
          (concat (map (\<lambda>h. [setHours tz d h 0 0 0, setHours tz d h 30 0 0])
             [hour + 1..endHour - 1])))"
      using True by (intro "1.IH") simp_all
    finally show ?thesis
      by (simp only: minuteLoop_eq range) simp
  next
    case False
    with "1.prems" have "hour = endHour" by simp
    then show ?thesis
      by (subst hourLoop.simps) simp
  qed
qed

lemma generateTimeSlots_eq:
  "generateTimeSlots tz now d duration =
     map (format_HHmm tz) (filter (slotAccepted tz now duration) (candidateStarts tz d))"
proof -
  have "startHour \<le> endHour" by (simp add: startHour_def endHour_def)
  then show ?thesis
    by (simp only: generateTimeSlots_def candidateStarts_def hourLoop_eq append_Nil)
qed

lemma setHours_local:
  assumes "0 \<le> h" "h < 24" "0 \<le> m" "m < 60"
  shows "getHours tz (setHours tz d h m 0 0) = h" and "getMinutes tz (setHours tz d h m 0 0) = m"
proof -
  define q where "q = (d + tz) div 86400000"
  have local: "setHours tz d h m 0 0 + tz = q * 86400000 + (h * 3600000 + m * 60000)"
    by (simp add: setHours_def msPerDay_def msPerHour_def msPerMinute_def q_def
        minus_mod_eq_div_mult)
  have off: "0 \<le> h * 3600000 + m * 60000" "h * 3600000 + m * 60000 < 86400000"
    using assms by auto
  have "(q * 86400000 + (h * 3600000 + m * 60000)) mod 86400000 = h * 3600000 + m * 60000"
    using off by simp
  moreover have "(h * 3600000 + m * 60000) div 3600000 = h"
    using assms by simp
  ultimately show "getHours tz (setHours tz d h m 0 0) = h"
    by (simp add: getHours_def local msPerDay_def msPerHour_def)
  have "q * 86400000 + (h * 3600000 + m * 60000) = (q * 24 + h) * 3600000 + m * 60000"
    by (simp add: algebra_simps)
  then have "(q * 86400000 + (h * 3600000 + m * 60000)) mod 3600000 = (m * 60000) mod 3600000"
    by (simp only: mod_mult_self3)
  also have "\<dots> = m * 60000"
    using assms by simp
  finally show "getMinutes tz (setHours tz d h m 0 0) = m"
    by (simp add: getMinutes_def local msPerHour_def msPerMinute_def)
qed

lemma candidateStarts_window:
  assumes "t \<in> set (candidateStarts tz d)"
  shows "9 * 60 \<le> minuteOfDay tz t \<and> minuteOfDay tz t \<le> 17 * 60 + 30"
proof -
  from assms obtain h where mem: "h \<in> set [startHour..endHour - 1]"
    and t: "t = setHours tz d h 0 0 0 \<or> t = setHours tz d h 30 0 0"
    by (auto simp: candidateStarts_def)
  from mem have "startHour \<le> h \<and> h \<le> endHour - 1"
    by (simp only: set_upto atLeastAtMost_iff)
  then have h: "9 \<le> h" "h \<le> 17"
    by (simp_all add: startHour_def endHour_def)
  from t show ?thesis
  proof
    assume "t = setHours tz d h 0 0 0"
    then show ?thesis using h setHours_local [of h 0 tz d] by (simp add: minuteOfDay_def)
  next
    assume "t = setHours tz d h 30 0 0"
    then show ?thesis using h setHours_local [of h 30 tz d] by (simp add: minuteOfDay_def)
  qed
qed

lemma generateTimeSlots_sound:
  assumes "s \<in> set (generateTimeSlots tz now d duration)"
  shows "\<exists>slotStart. s = format_HHmm tz slotStart
           \<and> 9 * 60 \<le> minuteOfDay tz slotStart \<and> minuteOfDay tz slotStart \<le> 17 * 60 + 30
           \<and> slotStart > addMinutes now 120
           \<and> getHours tz (addMinutes slotStart duration) \<le> 18"
proof -
  from assms obtain t where t: "t \<in> set (candidateStarts tz d)"
    and ok: "slotAccepted tz now duration t" and s: "s = format_HHmm tz t"
    unfolding generateTimeSlots_eq by auto
  from ok have "t > addMinutes now 120" "getHours tz (addMinutes t duration) \<le> 18"
    by (simp_all add: slotAccepted_def endHour_def)
  with s candidateStarts_window [OF t] show ?thesis by blast
qed

text \<open>
  With a duration of zero the first test always passes: every candidate later than two
  hours from now is returned.
\<close>

lemma candidateStarts_hour:
  assumes "t \<in> set (candidateStarts tz d)"
  shows "getHours tz t \<le> 17"
proof -
  have "0 \<le> getMinutes tz t"
    by (simp add: getMinutes_def msPerHour_def msPerMinute_def pos_imp_zdiv_nonneg_iff)
  with candidateStarts_window [OF assms] show ?thesis
    by (simp add: minuteOfDay_def)
qed

lemma generateTimeSlots_zero_duration:
  "generateTimeSlots tz now d 0 =
     map (format_HHmm tz) (filter (\<lambda>t. t > addMinutes now 120) (candidateStarts tz d))"
proof -
  have "filter (slotAccepted tz now 0) (candidateStarts tz d) =
      filter (\<lambda>t. t > addMinutes now 120) (candidateStarts tz d)"
  proof (rule filter_cong [OF refl])
    fix t assume "t \<in> set (candidateStarts tz d)"
    then have "getHours tz t \<le> 17" by (rule candidateStarts_hour)
    then show "slotAccepted tz now 0 t = (t > addMinutes now 120)"
      by (simp add: slotAccepted_def addMinutes_def endHour_def)
  qed
  then show ?thesis by (simp only: generateTimeSlots_eq)
qed

text \<open>
  C1 (the slot's end does not pass closing time). The guard of \<open>generateTimeSlots\<close>,
  commented "Check if slot ends before closing time", compares only the hour of the
  slot's end with 18, so an end between 18:01 and 18:59 passes it. For a date four
  days ahead and a duration of 60 minutes, every start from 09:00 to 17:30 is returned;
  the slot at 17:30 ends at 18:30, after closing.
\<close>

theorem generateTimeSlots_ends_after_closing:
  "generateTimeSlots 0 now_0700Z date_2025_01_20 60 =
     [''09:00'', ''09:30'', ''10:00'', ''10:30'', ''11:00'', ''11:30'',
      ''12:00'', ''12:30'', ''13:00'', ''13:30'', ''14:00'', ''14:30'',
      ''15:00'', ''15:30'', ''16:00'', ''16:30'', ''17:00'', ''17:30'']
   \<and> format_HHmm 0 (setHours 0 date_2025_01_20 17 30 0 0) = ''17:30''
   \<and> format_HHmm 0 (addMinutes (setHours 0 date_2025_01_20 17 30 0 0) 60) = ''18:30''"
  by code_simp

text \<open>
  C2 (first slot of the scenario). With the date 2025-01-16, 60 minutes and
  \<open>now\<close> = 2025-01-16T07:00:00Z in a browser on UTC, the slot at 09:00 starts exactly
  120 minutes after \<open>now\<close>. The test, commented "at least 2 hours from now", is the
  strict \<open>slotStart > minimumTime\<close>, so that slot is left out and the first slot
  returned is 09:30.
\<close>

theorem generateTimeSlots_boundary_excluded:
  "generateTimeSlots 0 now_0700Z date_2025_01_16 60 =
     [''09:30'', ''10:00'', ''10:30'', ''11:00'', ''11:30'',
      ''12:00'', ''12:30'', ''13:00'', ''13:30'', ''14:00'', ''14:30'',
      ''15:00'', ''15:30'', ''16:00'', ''16:30'', ''17:00'', ''17:30'']
   \<and> setHours 0 date_2025_01_16 9 0 0 0 = addMinutes now_0700Z 120
   \<and> format_HHmm 0 (setHours 0 date_2025_01_16 9 0 0 0) = ''09:00''"
  by code_simp

subsection \<open>Updates of a table\<close>

lemma update_where_length: "length (update_where c f rows) = length rows"
  by (simp add: update_where_def)

lemma update_where_nth:
  "k < length rows \<Longrightarrow>
     update_where c f rows ! k = (if c (rows ! k) then f (rows ! k) else rows ! k)"
  by (simp add: update_where_def)

lemma update_where_twice:
  assumes "\<And>r. c (f r) = c r"
  shows "update_where c g (update_where c f rows) = update_where c (\<lambda>r. g (f r)) rows"
  using assms by (simp add: update_where_def)

lemma returning_after_update:
  assumes "\<And>r. c (f r) = c r"
  shows "returning c g (update_where c f rows) = returning c (\<lambda>r. g (f r)) rows"
  using assms by (induction rows) (simp_all add: returning_def update_where_def)

lemma filter_update_where:
  assumes "\<And>r. c (f r) = c r"
  shows "filter c (update_where c f rows) = map f (filter c rows)"
  using assms by (induction rows) (simp_all add: update_where_def)

lemma filter_not_update_where:
  assumes "\<And>r. c (f r) = c r"
  shows "filter (\<lambda>r. \<not> c r) (update_where c f rows) = filter (\<lambda>r. \<not> c r) rows"
  using assms by (induction rows) (simp_all add: update_where_def)

subsection \<open>Soft delete\<close>

text \<open>
  C9. \<open>deleteService\<close> and \<open>deleteStylist\<close> delete no row: the table keeps its length
  and its order, the row of the given id differs from the old one in \<open>isActive\<close> only
  (now false), every other row is the old one, and the other tables (the appointments
  that refer to the row among them) are the same.
\<close>

theorem delete_only_deactivates:
  "db_stylists (deleteService i db) = db_stylists db
   \<and> db_appointments (deleteService i db) = db_appointments db
   \<and> db_reviews (deleteService i db) = db_reviews db
   \<and> length (db_services (deleteService i db)) = length (db_services db)
   \<and> (\<forall>k < length (db_services db).
        db_services (deleteService i db) ! k =
          (if svc_id (db_services db ! k) = i
           then (db_services db ! k)\<lparr>svc_isActive := Some False\<rparr>
           else db_services db ! k))
   \<and> db_services (deleteStylist j db) = db_services db
   \<and> db_appointments (deleteStylist j db) = db_appointments db
   \<and> db_reviews (deleteStylist j db) = db_reviews db
   \<and> length (db_stylists (deleteStylist j db)) = length (db_stylists db)
   \<and> (\<forall>k < length (db_stylists db).
        db_stylists (deleteStylist j db) ! k =
          (if sty_id (db_stylists db ! k) = j
           then (db_stylists db ! k)\<lparr>sty_isActive := Some False\<rparr>
           else db_stylists db ! k))"
  by (simp add: deleteService_def deleteStylist_def update_where_length update_where_nth)

theorem delete_only_deactivates_witness:
  "db_services (deleteService ''A'' exampleCatalog) ! 0 =
     (mkService ''A'' ''s1'' ''Coupe'' 30 25 False)\<lparr>svc_isActive := Some False\<rparr>
   \<and> db_services (deleteService ''A'' exampleCatalog) ! 1 =
     mkService ''B'' ''s1'' ''Couleur'' 60 80 True
   \<and> length (db_services (deleteService ''A'' exampleCatalog)) = 2
   \<and> db_stylists (deleteStylist ''y2'' exampleCatalog) ! 0 = mkStylist ''y1'' ''s1'' ''Lea''
   \<and> db_stylists (deleteStylist ''y2'' exampleCatalog) ! 1 =
     (mkStylist ''y2'' ''s1'' ''Max'')\<lparr>sty_isActive := Some False\<rparr>
   \<and> db_appointments (deleteService ''A'' exampleCatalog) = db_appointments exampleCatalog
   \<and> db_appointments (deleteStylist ''y2'' exampleCatalog) = db_appointments exampleCatalog"
  using delete_only_deactivates [of "''A''" exampleCatalog "''y2''"]
  by (simp add: exampleCatalog_def mkService_def mkStylist_def)

subsection \<open>Appointment lifecycle\<close>

lemma setCancelled_twice:
  "setCancelled r2 c2 u2 (setCancelled r1 c1 u1 a) = setCancelled r2 c2 u2 a"
  by (simp add: setCancelled_def)

lemma setCancelled_id: "apt_id (setCancelled r c u a) = apt_id a"
  by (simp add: setCancelled_def)

text \<open>
  C6, as the code has it. \<open>cancelAppointment\<close> has no test of the present status: a
  second call writes \<open>cancelledAt\<close>, \<open>cancellationReason\<close> and \<open>updatedAt\<close> again. Two
  calls leave the table, and return the row, that the second call alone would: the
  rows of the given id have the status \<open>cancelled\<close> and the time and reason of the last
  call, and the other rows are untouched.
\<close>

theorem cancel_twice_last_write_wins:
  "cancelAppointment i r2 c2 u2 (fst (cancelAppointment i r1 c1 u1 db)) =
     cancelAppointment i r2 c2 u2 db
   \<and> filter (\<lambda>a. apt_id a = i) (db_appointments (fst (cancelAppointment i r2 c2 u2 db))) =
      map (\<lambda>a. a\<lparr>apt_status := ''cancelled'', apt_cancelledAt := Some c2,
                   apt_cancellationReason := Some r2, apt_updatedAt := Some u2\<rparr>)
        (filter (\<lambda>a. apt_id a = i) (db_appointments db))
   \<and> filter (\<lambda>a. apt_id a \<noteq> i) (db_appointments (fst (cancelAppointment i r2 c2 u2 db))) =
      filter (\<lambda>a. apt_id a \<noteq> i) (db_appointments db)"
proof (intro conjI)
  show "cancelAppointment i r2 c2 u2 (fst (cancelAppointment i r1 c1 u1 db)) =
     cancelAppointment i r2 c2 u2 db"
    by (simp add: cancelAppointment_def update_where_twice returning_after_update
        setCancelled_id setCancelled_twice)
  have "filter (\<lambda>a. apt_id a = i) (db_appointments (fst (cancelAppointment i r2 c2 u2 db))) =
      map (setCancelled r2 c2 u2) (filter (\<lambda>a. apt_id a = i) (db_appointments db))"
    by (simp add: cancelAppointment_def filter_update_where setCancelled_id)
  then show "filter (\<lambda>a. apt_id a = i) (db_appointments (fst (cancelAppointment i r2 c2 u2 db))) =
      map (\<lambda>a. a\<lparr>apt_status := ''cancelled'', apt_cancelledAt := Some c2,
                   apt_cancellationReason := Some r2, apt_updatedAt := Some u2\<rparr>)
        (filter (\<lambda>a. apt_id a = i) (db_appointments db))"
    by (simp add: setCancelled_def)
  show "filter (\<lambda>a. apt_id a \<noteq> i) (db_appointments (fst (cancelAppointment i r2 c2 u2 db))) =
      filter (\<lambda>a. apt_id a \<noteq> i) (db_appointments db)"
    by (simp add: cancelAppointment_def filter_not_update_where setCancelled_id)
qed

text \<open>
  C6, as the claim states it, fails: an appointment cancelled at time 1000 and again at
  time 2000, with the same reason, has \<open>cancelledAt\<close> = 2000 after the second call, so
  the second call changed the record.
\<close>

theorem cancel_twice_restamps:
  "db_appointments (fst (cancelAppointment ''a1'' ''late'' 1000 1000 (lifecycleDb ''pending''))) =
     [(mkAppointment ''a1'' ''s1'' [''A''] 100 ''cancelled'' 50)
        \<lparr>apt_cancelledAt := Some 1000, apt_cancellationReason := Some ''late'',
         apt_updatedAt := Some 1000\<rparr>]
   \<and> db_appointments (fst (cancelAppointment ''a1'' ''late'' 2000 2000
        (fst (cancelAppointment ''a1'' ''late'' 1000 1000 (lifecycleDb ''pending''))))) =
     [(mkAppointment ''a1'' ''s1'' [''A''] 100 ''cancelled'' 50)
        \<lparr>apt_cancelledAt := Some 2000, apt_cancellationReason := Some ''late'',
         apt_updatedAt := Some 2000\<rparr>]
   \<and> fst (cancelAppointment ''a1'' ''late'' 2000 2000
        (fst (cancelAppointment ''a1'' ''late'' 1000 1000 (lifecycleDb ''pending'')))) \<noteq>
      fst (cancelAppointment ''a1'' ''late'' 1000 1000 (lifecycleDb ''pending''))"
  by (simp add: cancelAppointment_def update_where_def setCancelled_def lifecycleDb_def
      mkAppointment_def)

text \<open>
  C8, as the code has it. Neither operation looks at the present status, and neither
  do the routes that call them. \<open>updateAppointment\<close> gives the rows of the given id the
  status of the partial update, whatever it is, and keeps their status when the update
  has none; \<open>cancelAppointment\<close> gives them the status \<open>cancelled\<close> from any status. The
  other rows keep theirs.
\<close>

theorem status_transitions_unguarded:
  "map apt_status (db_appointments (fst (updateAppointment i p now db))) =
     map (\<lambda>a. if apt_id a = i then (case p_status p of None \<Rightarrow> apt_status a | Some s \<Rightarrow> s)
               else apt_status a) (db_appointments db)
   \<and> map apt_status (db_appointments (fst (cancelAppointment i reason now1 now2 db))) =
     map (\<lambda>a. if apt_id a = i then ''cancelled'' else apt_status a) (db_appointments db)
   \<and> map apt_status (db_appointments (fst (patchAppointmentRoute i p now db))) =
     map (\<lambda>a. if apt_id a = i then (case p_status p of None \<Rightarrow> apt_status a | Some s \<Rightarrow> s)
               else apt_status a) (db_appointments db)
   \<and> map apt_status (db_appointments (fst (cancelAppointmentRoute i body now1 now2 db))) =
     map (\<lambda>a. if apt_id a = i then ''cancelled'' else apt_status a) (db_appointments db)"
  by (simp add: patchAppointmentRoute_def cancelAppointmentRoute_def updateAppointment_def
      cancelAppointment_def update_where_def applyPatch_def setCancelled_def given_def o_def
      if_distrib cong: if_cong)

text \<open>
  C8, as the claim states it, fails: cancelling a completed appointment moves it to
  \<open>cancelled\<close>, and an update with the status \<open>pending\<close> moves a cancelled appointment
  back to \<open>pending\<close>; both leave a terminal state.
\<close>

theorem terminal_state_left:
  "map apt_status (db_appointments (lifecycleDb ''completed'')) = [''completed'']
   \<and> map apt_status (db_appointments
        (fst (cancelAppointmentRoute ''a1'' (Some ''late'') 1000 1000
           (lifecycleDb ''completed'')))) = [''cancelled'']
   \<and> map apt_status (db_appointments (lifecycleDb ''cancelled'')) = [''cancelled'']
   \<and> map apt_status (db_appointments
        (fst (patchAppointmentRoute ''a1'' (noPatch\<lparr>p_status := Some ''pending''\<rparr>) 1000
           (lifecycleDb ''cancelled'')))) = [''pending'']"
  by (simp add: patchAppointmentRoute_def cancelAppointmentRoute_def updateAppointment_def
      cancelAppointment_def update_where_def applyPatch_def setCancelled_def given_def
      lifecycleDb_def mkAppointment_def noPatch_def)

subsection \<open>Metrics\<close>

text \<open>The model of numbers gives the doubles of 0.1 and of 0.1 + 0.2.\<close>

lemma to_double_tenth: "to_double (1 / 10) = 3602879701896397 / 2 ^ 55"
  by code_simp

lemma js_add_tenth_fifth:
  "js_add (to_double (1 / 10)) (to_double (2 / 10)) = 5404319552844596 / 2 ^ 54"
  by code_simp

lemma foldl_js_add_exact:
  "exactly_summable acc xs \<Longrightarrow>
     foldl (\<lambda>sum x. js_add sum (Number_decimal x)) acc xs = acc + sum_list xs"
  by (induction xs arbitrary: acc) (simp_all add: js_add_def Number_decimal_def add.assoc)

lemma completed_in_range:
  "filter (\<lambda>apt. apt_status apt = ''completed'')
          (appointmentsInRange db salonId startDate endDate) =
   filter (\<lambda>a. apt_salonId a = salonId \<and> startDate \<le> apt_startTime a
                 \<and> apt_startTime a \<le> endDate \<and> apt_status a = ''completed'')
          (db_appointments db)"
  by (simp add: appointmentsInRange_def conj_commute conj_left_commute)

text \<open>
  C5, as the code has it. \<open>totalRevenue\<close> adds \<open>Number(totalAmount)\<close>, one by one in
  the order of the rows and in double arithmetic, over the appointments of the salon
  whose start time is in the range and whose status is \<open>completed\<close>, and over no other.
  It is the exact sum of these amounts when they add up without rounding; three
  completed appointments of 50, 30 and 20 with two cancelled ones of 40 give 100.
\<close>

theorem totalRevenue_completed_only:
  "totalRevenue (getSalonMetrics db salonId startDate endDate) =
     foldl (\<lambda>sum a. js_add sum (Number_decimal (apt_totalAmount a))) 0
       (filter (\<lambda>a. apt_salonId a = salonId \<and> startDate \<le> apt_startTime a
                     \<and> apt_startTime a \<le> endDate \<and> apt_status a = ''completed'')
          (db_appointments db))
   \<and> (exactly_summable 0 (map apt_totalAmount
          (filter (\<lambda>a. apt_salonId a = salonId \<and> startDate \<le> apt_startTime a
                        \<and> apt_startTime a \<le> endDate \<and> apt_status a = ''completed'')
             (db_appointments db))) \<longrightarrow>
        totalRevenue (getSalonMetrics db salonId startDate endDate) =
          sum_list (map apt_totalAmount
            (filter (\<lambda>a. apt_salonId a = salonId \<and> startDate \<le> apt_startTime a
                          \<and> apt_startTime a \<le> endDate \<and> apt_status a = ''completed'')
               (db_appointments db))))
   \<and> totalRevenue (getSalonMetrics revenueScenario ''s1'' 0 1000) = 100"
proof (intro conjI impI)
  let ?rows = "filter (\<lambda>a. apt_salonId a = salonId \<and> startDate \<le> apt_startTime a
                     \<and> apt_startTime a \<le> endDate \<and> apt_status a = ''completed'')
          (db_appointments db)"
  show fold: "totalRevenue (getSalonMetrics db salonId startDate endDate) =
     foldl (\<lambda>sum a. js_add sum (Number_decimal (apt_totalAmount a))) 0 ?rows"
    by (simp add: getSalonMetrics_def Let_def completed_in_range)
  assume "exactly_summable 0 (map apt_totalAmount ?rows)"
  then have "foldl (\<lambda>sum x. js_add sum (Number_decimal x)) 0 (map apt_totalAmount ?rows) =
      0 + sum_list (map apt_totalAmount ?rows)"
    by (rule foldl_js_add_exact)
  then show "totalRevenue (getSalonMetrics db salonId startDate endDate) =
      sum_list (map apt_totalAmount ?rows)"
    by (simp add: fold foldl_map)
next
  show "totalRevenue (getSalonMetrics revenueScenario ''s1'' 0 1000) = 100"
    by code_simp
qed

theorem totalRevenue_completed_only_witness:
  "exactly_summable 0 (map apt_totalAmount
     (filter (\<lambda>a. apt_salonId a = ''s1'' \<and> 0 \<le> apt_startTime a
                   \<and> apt_startTime a \<le> 1000 \<and> apt_status a = ''completed'')
        (db_appointments revenueScenario)))
   \<and> totalRevenue (getSalonMetrics revenueScenario ''s1'' 0 1000) =
       sum_list (map apt_totalAmount
         (filter (\<lambda>a. apt_salonId a = ''s1'' \<and> 0 \<le> apt_startTime a
                       \<and> apt_startTime a \<le> 1000 \<and> apt_status a = ''completed'')
            (db_appointments revenueScenario)))
   \<and> sum_list (map apt_totalAmount
         (filter (\<lambda>a. apt_salonId a = ''s1'' \<and> 0 \<le> apt_startTime a
                       \<and> apt_startTime a \<le> 1000 \<and> apt_status a = ''completed'')
            (db_appointments revenueScenario))) = 100"
proof -
  have exact: "exactly_summable 0 (map apt_totalAmount
     (filter (\<lambda>a. apt_salonId a = ''s1'' \<and> 0 \<le> apt_startTime a
                   \<and> apt_startTime a \<le> 1000 \<and> apt_status a = ''completed'')
        (db_appointments revenueScenario)))"
    by code_simp
  have total: "sum_list (map apt_totalAmount
         (filter (\<lambda>a. apt_salonId a = ''s1'' \<and> 0 \<le> apt_startTime a
                       \<and> apt_startTime a \<le> 1000 \<and> apt_status a = ''completed'')
            (db_appointments revenueScenario))) = 100"
    by code_simp
  from totalRevenue_completed_only [of revenueScenario "''s1''" 0 1000] exact
  have "totalRevenue (getSalonMetrics revenueScenario ''s1'' 0 1000) =
       sum_list (map apt_totalAmount
         (filter (\<lambda>a. apt_salonId a = ''s1'' \<and> 0 \<le> apt_startTime a
                       \<and> apt_startTime a \<le> 1000 \<and> apt_status a = ''completed'')
            (db_appointments revenueScenario)))"
    by blast
  with exact total show ?thesis by (intro conjI)
qed

text \<open>
  C5, as the claim states it, fails: for two completed appointments of 0.10 and 0.20
  the exact sum is 0.30, and \<open>totalRevenue\<close> is the double 0.30000000000000004.
\<close>

theorem totalRevenue_rounds:
  "totalRevenue (getSalonMetrics roundingScenario ''s1'' 0 1000) = 5404319552844596 / 2 ^ 54
   \<and> sum_list (map apt_totalAmount
        (filter (\<lambda>a. apt_salonId a = ''s1'' \<and> 0 \<le> apt_startTime a
                      \<and> apt_startTime a \<le> 1000 \<and> apt_status a = ''completed'')
           (db_appointments roundingScenario))) = 3 / 10
   \<and> totalRevenue (getSalonMetrics roundingScenario ''s1'' 0 1000) \<noteq>
      sum_list (map apt_totalAmount
        (filter (\<lambda>a. apt_salonId a = ''s1'' \<and> 0 \<le> apt_startTime a
                      \<and> apt_startTime a \<le> 1000 \<and> apt_status a = ''completed'')
           (db_appointments roundingScenario)))"
  by code_simp

text \<open>
  C7, as the code has it. When no appointment of the salon starts in the range,
  \<open>totalAppointments\<close> and \<open>totalRevenue\<close> are 0 and \<open>topServices\<close> is empty.
  \<open>averageRating\<close> is 0 when the salon has no review; otherwise it is the sum of the
  ratings of all the reviews of the salon divided by their number, in double
  arithmetic, whatever the range.
\<close>

theorem empty_range_metrics:
  assumes "filter (\<lambda>a. apt_salonId a = salonId \<and> startDate \<le> apt_startTime a
                     \<and> apt_startTime a \<le> endDate) (db_appointments db) = []"
  shows "totalAppointments (getSalonMetrics db salonId startDate endDate) = 0
   \<and> totalRevenue (getSalonMetrics db salonId startDate endDate) = 0
   \<and> topServices (getSalonMetrics db salonId startDate endDate) = []
   \<and> averageRating (getSalonMetrics db salonId startDate endDate) =
       (if filter (\<lambda>r. rev_salonId r = salonId) (db_reviews db) = [] then 0
        else js_div
               (foldl (\<lambda>sum r. js_add sum (Number_int (rev_rating r))) 0
                  (filter (\<lambda>r. rev_salonId r = salonId) (db_reviews db)))
               (of_nat (length (filter (\<lambda>r. rev_salonId r = salonId) (db_reviews db)))))"
proof -
  have "appointmentsInRange db salonId startDate endDate = []"
    using assms by (simp add: appointmentsInRange_def)
  then show ?thesis
    by (simp add: getSalonMetrics_def Let_def serviceCounts_def sortByCountDesc_def)
qed

theorem empty_range_metrics_witness:
  "totalAppointments (getSalonMetrics exampleCatalog ''s1'' 2000 3000) = 0
   \<and> totalRevenue (getSalonMetrics exampleCatalog ''s1'' 2000 3000) = 0
   \<and> topServices (getSalonMetrics exampleCatalog ''s1'' 2000 3000) = []
   \<and> averageRating (getSalonMetrics exampleCatalog ''s1'' 2000 3000) = 5
   \<and> averageRating (getSalonMetrics revenueScenario ''s1'' 2000 3000) = 0"
proof -
  have none: "filter (\<lambda>a. apt_salonId a = ''s1'' \<and> 2000 \<le> apt_startTime a
                     \<and> apt_startTime a \<le> 3000) (db_appointments exampleCatalog) = []"
    by code_simp
  have rated: "(if filter (\<lambda>r. rev_salonId r = ''s1'') (db_reviews exampleCatalog) = [] then 0
        else js_div
               (foldl (\<lambda>sum r. js_add sum (Number_int (rev_rating r))) 0
                  (filter (\<lambda>r. rev_salonId r = ''s1'') (db_reviews exampleCatalog)))
               (of_nat (length (filter (\<lambda>r. rev_salonId r = ''s1'')
                  (db_reviews exampleCatalog))))) = 5"
    by code_simp
  have none': "filter (\<lambda>a. apt_salonId a = ''s1'' \<and> 2000 \<le> apt_startTime a
                     \<and> apt_startTime a \<le> 3000) (db_appointments revenueScenario) = []"
    by code_simp
  have unrated: "filter (\<lambda>r. rev_salonId r = ''s1'') (db_reviews revenueScenario) = []"
    by code_simp
  from empty_range_metrics [OF none] empty_range_metrics [OF none'] show ?thesis
    by (simp only: rated unrated if_True simp_thms)
qed

text \<open>
  C7, as the claim states it, fails: a salon with no appointment at all and two
  reviews of 5 and 4 has \<open>totalAppointments\<close> = 0 and \<open>averageRating\<close> = 4.5.
\<close>

theorem averageRating_ignores_range:
  "totalAppointments (getSalonMetrics reviewedSalon ''s1'' 0 1000) = 0
   \<and> averageRating (getSalonMetrics reviewedSalon ''s1'' 0 1000) = 9 / 2"
  by code_simp

subsection \<open>The booking form\<close>

text \<open>
  C3, as the code has it. The slot effect is guarded by \<open>totalDuration > 0\<close>: with a
  total duration of zero it does not call \<open>generateTimeSlots\<close> and leaves the state as
  it is. With no service selected the total duration is zero and \<open>availableSlots\<close> keeps
  its value, which is the empty list in a form where no slot was generated before; and
  at step 1 \<open>handleNextStep\<close> stays on step 1 and sets the error of \<open>serviceIds\<close>.
\<close>

theorem zero_duration_keeps_slots:
  "(totalDuration st = 0 \<longrightarrow> slotsEffect tz now st = st)
   \<and> (selectedServices st = [] \<longrightarrow>
        totalDuration (totalsEffect services st) = 0
        \<and> availableSlots (slotsEffect tz now (totalsEffect services st)) = availableSlots st
        \<and> (currentStep st = 1 \<longrightarrow>
             currentStep (handleNextStep st) = 1
             \<and> form_serviceIdsError (handleNextStep st) \<noteq> None))
   \<and> availableSlots
        (slotsEffect tz now (totalsEffect services (initialForm\<lparr>form_date := dt\<rparr>))) = []"
  by (simp add: slotsEffect_def totalsEffect_def handleNextStep_def initialForm_def Let_def
      split: option.splits)

theorem zero_duration_keeps_slots_witness:
  "slotsEffect 0 now_0700Z (initialForm\<lparr>form_date := Some date_2025_01_20\<rparr>) =
     initialForm\<lparr>form_date := Some date_2025_01_20\<rparr>
   \<and> availableSlots (slotsEffect 0 now_0700Z
        (totalsEffect pricedServices (initialForm\<lparr>form_date := Some date_2025_01_20\<rparr>))) = []
   \<and> currentStep (handleNextStep (initialForm\<lparr>form_date := Some date_2025_01_20\<rparr>)) = 1"
proof -
  have d: "totalDuration (initialForm\<lparr>form_date := Some date_2025_01_20\<rparr>) = 0"
    and s: "selectedServices (initialForm\<lparr>form_date := Some date_2025_01_20\<rparr>) = []"
    and c: "currentStep (initialForm\<lparr>form_date := Some date_2025_01_20\<rparr>) = 1"
    and a: "availableSlots (initialForm\<lparr>form_date := Some date_2025_01_20\<rparr>) = []"
    by (simp_all add: initialForm_def)
  from zero_duration_keeps_slots [of "initialForm\<lparr>form_date := Some date_2025_01_20\<rparr>"
      0 now_0700Z pricedServices "Some date_2025_01_20"] d s c a
  show ?thesis by simp
qed

text \<open>
  C3, as the claim states it, fails. Called with a duration of zero, \<open>generateTimeSlots\<close>
  returns every start from 09:00 to 17:30 of a future date. And in the form, after a
  service is ticked, a date is chosen at step 3 and the service is unticked back at
  step 1, no service is selected and the total duration is zero, yet \<open>availableSlots\<close>
  still holds the eighteen slots generated before.
\<close>

theorem stale_slots_at_zero_duration:
  "selectedServices staleForm = []
   \<and> totalDuration staleForm = 0
   \<and> currentStep staleForm = 1
   \<and> availableSlots staleForm =
     [''09:00'', ''09:30'', ''10:00'', ''10:30'', ''11:00'', ''11:30'',
      ''12:00'', ''12:30'', ''13:00'', ''13:30'', ''14:00'', ''14:30'',
      ''15:00'', ''15:30'', ''16:00'', ''16:30'', ''17:00'', ''17:30'']
   \<and> generateTimeSlots 0 now_0700Z date_2025_01_20 0 =
     [''09:00'', ''09:30'', ''10:00'', ''10:30'', ''11:00'', ''11:30'',
      ''12:00'', ''12:30'', ''13:00'', ''13:30'', ''14:00'', ''14:30'',
      ''15:00'', ''15:30'', ''16:00'', ''16:30'', ''17:00'', ''17:30'']"
  by code_simp

lemma Math_round_zero_iff: "Math_round x = 0 \<longleftrightarrow> - (1 / 2) \<le> x \<and> x < 1 / 2"
  unfolding Math_round_def floor_eq_iff by auto

lemma requiresDeposit_iff:
  "requiresDeposit services selected \<longleftrightarrow>
     (\<exists>serviceId \<in> set selected. \<exists>s. findService services serviceId = Some s
        \<and> svc_requiresDeposit s = Some True)"
  by (auto simp: requiresDeposit_def list_ex_iff split: option.splits)

lemma depositAmount_zero_iff:
  "(of_int (Math_round (p * (2 / 10) * 100)) / 100 = (0::rat)) \<longleftrightarrow>
     - (1 / 40) \<le> p \<and> p < 1 / 40"
proof -
  have "(of_int (Math_round (p * (2 / 10) * 100)) / 100 = (0::rat)) \<longleftrightarrow>
        Math_round (p * (2 / 10) * 100) = 0"
    by simp
  also have "\<dots> \<longleftrightarrow> - (1 / 40) \<le> p \<and> p < 1 / 40"
    unfolding Math_round_zero_iff by auto
  finally show ?thesis .
qed

lemma depositAmount_by_flag:
  "bd_depositAmount (handleFormSubmit tz services salonId st d h m) =
     (if requiresDeposit services (selectedServices st)
      then round_to_2 (bd_totalAmount (handleFormSubmit tz services salonId st d h m) * (2 / 10))
      else 0)
   \<and> (bd_depositAmount (handleFormSubmit tz services salonId st d h m) \<noteq> 0 \<longleftrightarrow>
        requiresDeposit services (selectedServices st)
        \<and> \<not> (- (1 / 40) \<le> bd_totalAmount (handleFormSubmit tz services salonId st d h m)
             \<and> bd_totalAmount (handleFormSubmit tz services salonId st d h m) < 1 / 40))"
proof (cases "requiresDeposit services (selectedServices st)")
  case True
  then have dep: "bd_depositAmount (handleFormSubmit tz services salonId st d h m) =
      of_int (Math_round (totalPrice st * (2 / 10) * 100)) / 100"
    by (simp add: handleFormSubmit_def Let_def)
  have tot: "bd_totalAmount (handleFormSubmit tz services salonId st d h m) = totalPrice st"
    by (simp add: handleFormSubmit_def Let_def)
  have rnd: "of_int (Math_round (totalPrice st * (2 / 10) * 100)) / 100 =
      round_to_2 (totalPrice st * (2 / 10))"
    by (simp add: Math_round_def round_to_2_def)
  show ?thesis
    unfolding tot dep using True depositAmount_zero_iff [of "totalPrice st"]
    by (simp only: rnd if_True simp_thms)
next
  case False
  then have dep: "bd_depositAmount (handleFormSubmit tz services salonId st d h m) = 0"
    by (simp add: handleFormSubmit_def Let_def)
  show ?thesis
    using False by (simp add: dep)
qed

text \<open>
  C4, as the code has it. When at least one selected service has \<open>requiresDeposit\<close> =
  true, \<open>depositAmount\<close> is the total amount times 0.2 rounded to two decimal places,
  and otherwise it is 0. It is nonzero exactly when a selected service requires a
  deposit and that rounding is not 0, that is, when the total is not in the interval
  from -0.025 (included) to 0.025 (excluded).
\<close>

theorem depositAmount_rule:
  "bd_depositAmount (handleFormSubmit tz services salonId st d h m) =
     (if \<exists>serviceId \<in> set (selectedServices st). \<exists>s.
           findService services serviceId = Some s \<and> svc_requiresDeposit s = Some True
      then round_to_2 (bd_totalAmount (handleFormSubmit tz services salonId st d h m) * (2 / 10))
      else 0)
   \<and> (bd_depositAmount (handleFormSubmit tz services salonId st d h m) \<noteq> 0 \<longleftrightarrow>
        (\<exists>serviceId \<in> set (selectedServices st). \<exists>s.
           findService services serviceId = Some s \<and> svc_requiresDeposit s = Some True)
        \<and> \<not> (- (1 / 40) \<le> bd_totalAmount (handleFormSubmit tz services salonId st d h m)
             \<and> bd_totalAmount (handleFormSubmit tz services salonId st d h m) < 1 / 40))"
  using depositAmount_by_flag [of tz services salonId st d h m]
  unfolding requiresDeposit_iff .

theorem depositAmount_rule_witness:
  "bd_depositAmount (handleFormSubmit 0 pricedServices ''s1''
      (formWith pricedServices [''A'', ''B'']) date_2025_01_20 9 30) =
     round_to_2 (bd_totalAmount (handleFormSubmit 0 pricedServices ''s1''
      (formWith pricedServices [''A'', ''B'']) date_2025_01_20 9 30) * (2 / 10))
   \<and> bd_totalAmount (handleFormSubmit 0 pricedServices ''s1''
      (formWith pricedServices [''A'', ''B'']) date_2025_01_20 9 30) = 10599 / 100
   \<and> bd_depositAmount (handleFormSubmit 0 pricedServices ''s1''
      (formWith pricedServices [''A'', ''B'']) date_2025_01_20 9 30) = 2120 / 100"
proof -
  have "requiresDeposit pricedServices (selectedServices (formWith pricedServices [''A'', ''B'']))"
    by code_simp
  then have ex: "\<exists>serviceId \<in> set (selectedServices (formWith pricedServices [''A'', ''B''])).
      \<exists>s. findService pricedServices serviceId = Some s \<and> svc_requiresDeposit s = Some True"
    by (simp only: requiresDeposit_iff)
  have rule: "bd_depositAmount (handleFormSubmit 0 pricedServices ''s1''
      (formWith pricedServices [''A'', ''B'']) date_2025_01_20 9 30) =
     round_to_2 (bd_totalAmount (handleFormSubmit 0 pricedServices ''s1''
      (formWith pricedServices [''A'', ''B'']) date_2025_01_20 9 30) * (2 / 10))"
    using depositAmount_rule [of 0 pricedServices "''s1''"
        "formWith pricedServices [''A'', ''B'']" date_2025_01_20 9 30] ex
    by (simp only: if_True simp_thms)
  have total: "bd_totalAmount (handleFormSubmit 0 pricedServices ''s1''
      (formWith pricedServices [''A'', ''B'']) date_2025_01_20 9 30) = 10599 / 100"
    by code_simp
  have deposit: "bd_depositAmount (handleFormSubmit 0 pricedServices ''s1''
      (formWith pricedServices [''A'', ''B'']) date_2025_01_20 9 30) = 2120 / 100"
    by code_simp
  from rule total deposit show ?thesis by (intro conjI)
qed

text \<open>
  C4, as the claim states it, fails: a free service (price 0) whose \<open>requiresDeposit\<close>
  is true is selected, a deposit is required, and \<open>depositAmount\<close> is 0.
\<close>

theorem free_service_with_deposit_flag:
  "requiresDeposit freeDepositService (selectedServices (formWith freeDepositService [''F'']))
   \<and> bd_requiresPayment (handleFormSubmit 0 freeDepositService ''s1''
        (formWith freeDepositService [''F'']) date_2025_01_20 9 30)
   \<and> bd_depositAmount (handleFormSubmit 0 freeDepositService ''s1''
        (formWith freeDepositService [''F'']) date_2025_01_20 9 30) = 0"
  by code_simp

subsection \<open>The histogram of services\<close>

lemma getCount_countService:
  "getCount (countService m cnt sid) n =
     getCount cnt n + (if serviceNameOf m sid = n then 1 else 0)"
  by (simp add: countService_def Let_def getCount_def update_conv')

lemma getCount_foldl_countService:
  "getCount (foldl (countService m) cnt ids) n =
     getCount cnt n + count_list (map (serviceNameOf m) ids) n"
  by (induction ids arbitrary: cnt) (simp_all add: getCount_countService)

lemma keys_foldl_countService:
  "fst ` set (foldl (countService m) cnt ids) = fst ` set cnt \<union> serviceNameOf m ` set ids"
  by (induction ids arbitrary: cnt) (auto simp: countService_def Let_def dom_update)

lemma distinct_foldl_countService:
  "distinct (map fst cnt) \<Longrightarrow> distinct (map fst (foldl (countService m) cnt ids))"
  by (induction ids arbitrary: cnt) (simp_all add: countService_def Let_def distinct_update)

lemma foldl_nested_concat:
  "foldl (\<lambda>acc x. foldl f acc (g x)) a xs = foldl f a (concat (map g xs))"
  by (induction xs arbitrary: a) simp_all

lemma serviceCounts_flat:
  "serviceCounts m apts = foldl (countService m) [] (concat (map apt_serviceIds apts))"
  by (simp add: serviceCounts_def foldl_nested_concat)

lemma serviceCounts_entry:
  assumes "(n, c) \<in> set (serviceCounts m apts)"
  shows "c = count_list (concat (map (\<lambda>a. map (serviceNameOf m) (apt_serviceIds a)) apts)) n"
    and "0 < c"
proof -
  let ?ids = "concat (map apt_serviceIds apts)"
  have names: "map (serviceNameOf m) ?ids =
      concat (map (\<lambda>a. map (serviceNameOf m) (apt_serviceIds a)) apts)"
    by (simp add: map_concat o_def)
  have "distinct (map fst (serviceCounts m apts))"
    by (simp add: serviceCounts_flat distinct_foldl_countService)
  with assms have "map_of (serviceCounts m apts) n = Some c"
    by (rule_tac map_of_is_SomeI)
  then have "getCount (serviceCounts m apts) n = c"
    by (simp add: getCount_def)
  then have "c = count_list (map (serviceNameOf m) ?ids) n"
    by (simp add: serviceCounts_flat getCount_foldl_countService)
       (simp add: getCount_def)
  then show c: "c = count_list (concat (map (\<lambda>a. map (serviceNameOf m) (apt_serviceIds a)) apts)) n"
    by (simp only: names)
  from assms have "n \<in> fst ` set (serviceCounts m apts)"
    by force
  then have "n \<in> set (map (serviceNameOf m) ?ids)"
    by (simp add: serviceCounts_flat keys_foldl_countService)
  then have "count_list (map (serviceNameOf m) ?ids) n \<noteq> 0"
    unfolding count_list_0_iff by blast
  then show "0 < c" using c by (simp only: names)
qed

lemma sortByCountDesc_sorted: "sorted_wrt (\<lambda>a b. snd a \<ge> snd b) (sortByCountDesc es)"
proof -
  have "sorted (map (\<lambda>e. - int (snd e)) (sortByCountDesc es))"
    by (simp add: sortByCountDesc_def)
  then have "sorted_wrt (\<lambda>a b. - int (snd a) \<le> - int (snd b)) (sortByCountDesc es)"
    by (simp only: sorted_map)
  then show ?thesis
    by (rule sorted_wrt_mono_rel [rotated]) simp
qed

lemma sortByCountDesc_set: "set (sortByCountDesc es) = set es"
  by (simp add: sortByCountDesc_def)

lemma sortByCountDesc_distinct_keys:
  "distinct (map fst es) \<Longrightarrow> distinct (map fst (sortByCountDesc es))"
  by (simp add: sortByCountDesc_def distinct_map)

lemma take_top:
  assumes "sorted_wrt (\<lambda>a b. snd a \<ge> snd b) es" and "x \<in> set es"
  shows "x \<in> set (take k es) \<or> (length (take k es) = k \<and> (\<forall>y \<in> set (take k es). snd x \<le> snd y))"
proof (cases "x \<in> set (take k es)")
  case True
  then show ?thesis by simp
next
  case False
  have split: "es = take k es @ drop k es" by simp
  with assms(2) False have in_drop: "x \<in> set (drop k es)"
    by (metis Un_iff set_append)
  then have "drop k es \<noteq> []" by auto
  then have len: "length (take k es) = k" by simp
  from assms(1) have "sorted_wrt (\<lambda>a b. snd a \<ge> snd b) (take k es @ drop k es)"
    by simp
  then have "\<forall>y \<in> set (take k es). \<forall>z \<in> set (drop k es). snd y \<ge> snd z"
    by (simp only: sorted_wrt_append) blast
  with in_drop len show ?thesis by blast
qed


lemma appointmentsInRange_status:
  "appointmentsInRange
     (db\<lparr>db_appointments := map (\<lambda>a. a\<lparr>apt_status := f a\<rparr>) (db_appointments db)\<rparr>)
     salonId startDate endDate =
   map (\<lambda>a. a\<lparr>apt_status := f a\<rparr>) (appointmentsInRange db salonId startDate endDate)"
  by (simp add: appointmentsInRange_def filter_map o_def)

lemma serviceMap_appointments:
  "serviceMap (db\<lparr>db_appointments := apts\<rparr>) salonId = serviceMap db salonId"
  by (simp add: serviceMap_def)

lemma serviceCounts_status:
  "serviceCounts m (map (\<lambda>a. a\<lparr>apt_status := f a\<rparr>) apts) = serviceCounts m apts"
  by (simp add: serviceCounts_flat o_def)

lemma topServices_eq:
  "topServices (getSalonMetrics db salonId startDate endDate) =
     take 5 (sortByCountDesc
       (serviceCounts (serviceMap db salonId) (appointmentsInRange db salonId startDate endDate)))"
  by (simp add: getSalonMetrics_def Let_def)

lemma serviceNamesInRange_eq:
  "serviceNamesInRange db salonId startDate endDate =
     concat (map (\<lambda>a. map (serviceNameOf (serviceMap db salonId)) (apt_serviceIds a))
       (appointmentsInRange db salonId startDate endDate))"
  by (simp add: serviceNamesInRange_def appointmentsInRange_def)

lemma serviceCounts_keys:
  "fst ` set (serviceCounts m apts) =
     set (concat (map (\<lambda>a. map (serviceNameOf m) (apt_serviceIds a)) apts))"
proof -
  have "map (serviceNameOf m) (concat (map apt_serviceIds apts)) =
      concat (map (\<lambda>a. map (serviceNameOf m) (apt_serviceIds a)) apts)"
    by (simp add: map_concat o_def)
  then have "set (concat (map (\<lambda>a. map (serviceNameOf m) (apt_serviceIds a)) apts)) =
      serviceNameOf m ` set (concat (map apt_serviceIds apts))"
    by (metis set_map)
  then show ?thesis
    by (simp only: serviceCounts_flat keys_foldl_countService) simp
qed

text \<open>
  C10. \<open>topServices\<close> has at most five entries, in descending order of count and with
  distinct names. The count of an entry is the number of occurrences, in the service id
  lists of all the appointments of the salon that start in the range, of the ids that
  resolve to its name: appointments of every status count alike, so changing the
  statuses in any way leaves \<open>topServices\<close> the same. A name that occurs is in the list,
  unless the list is full with five entries that all count at least as much.
\<close>

theorem topServices_histogram:
  "length (topServices (getSalonMetrics db salonId startDate endDate)) \<le> 5
   \<and> sorted_wrt (\<lambda>a b. snd a \<ge> snd b) (topServices (getSalonMetrics db salonId startDate endDate))
   \<and> distinct (map fst (topServices (getSalonMetrics db salonId startDate endDate)))
   \<and> (\<forall>(n, c) \<in> set (topServices (getSalonMetrics db salonId startDate endDate)).
        0 < c \<and> c = count_list (serviceNamesInRange db salonId startDate endDate) n)
   \<and> (\<forall>n \<in> set (serviceNamesInRange db salonId startDate endDate).
        n \<in> fst ` set (topServices (getSalonMetrics db salonId startDate endDate))
        \<or> (length (topServices (getSalonMetrics db salonId startDate endDate)) = 5
           \<and> (\<forall>(n', c') \<in> set (topServices (getSalonMetrics db salonId startDate endDate)).
                count_list (serviceNamesInRange db salonId startDate endDate) n \<le> c')))
   \<and> topServices (getSalonMetrics
        (db\<lparr>db_appointments := map (\<lambda>a. a\<lparr>apt_status := f a\<rparr>) (db_appointments db)\<rparr>)
        salonId startDate endDate) =
      topServices (getSalonMetrics db salonId startDate endDate)"
proof -
  let ?m = "serviceMap db salonId"
  let ?apts = "appointmentsInRange db salonId startDate endDate"
  let ?H = "serviceCounts ?m ?apts"
  let ?S = "sortByCountDesc ?H"
  let ?top = "topServices (getSalonMetrics db salonId startDate endDate)"
  let ?names = "serviceNamesInRange db salonId startDate endDate"
  have top: "?top = take 5 ?S" by (rule topServices_eq)
  have names: "?names = concat (map (\<lambda>a. map (serviceNameOf ?m) (apt_serviceIds a)) ?apts)"
    by (rule serviceNamesInRange_eq)
  have sub: "set ?top \<subseteq> set ?H"
    unfolding top using set_take_subset [of 5 ?S] by (simp add: sortByCountDesc_set)
  have len: "length ?top \<le> 5" unfolding top by simp
  have sorted_S: "sorted_wrt (\<lambda>a b. snd a \<ge> snd b) ?S" by (rule sortByCountDesc_sorted)
  then have srt: "sorted_wrt (\<lambda>a b. snd a \<ge> snd b) ?top"
    unfolding top by (rule sorted_wrt_take)
  have "distinct (map fst ?H)"
    by (simp add: serviceCounts_flat distinct_foldl_countService)
  then have "distinct (map fst ?S)" by (rule sortByCountDesc_distinct_keys)
  then have dst: "distinct (map fst ?top)"
    unfolding top by (simp add: take_map [symmetric])
  have entry: "\<And>n c. (n, c) \<in> set ?H \<Longrightarrow> 0 < c \<and> c = count_list ?names n"
    using serviceCounts_entry [of _ _ ?m ?apts] unfolding names by blast
  have cnt: "\<forall>(n, c) \<in> set ?top. 0 < c \<and> c = count_list ?names n"
    using sub entry by blast
  have full: "\<forall>n \<in> set ?names. n \<in> fst ` set ?top
        \<or> (length ?top = 5 \<and> (\<forall>(n', c') \<in> set ?top. count_list ?names n \<le> c'))"
  proof
    fix n assume "n \<in> set ?names"
    then have "n \<in> fst ` set ?H" by (simp only: names serviceCounts_keys)
    then obtain c where nc: "(n, c) \<in> set ?H" by force
    then have c: "c = count_list ?names n" using entry by blast
    from nc have "(n, c) \<in> set ?S" by (simp add: sortByCountDesc_set)
    from take_top [OF sorted_S this, of 5]
    have "(n, c) \<in> set ?top \<or> (length ?top = 5 \<and> (\<forall>y \<in> set ?top. c \<le> snd y))"
      by (simp add: top)
    then show "n \<in> fst ` set ?top
        \<or> (length ?top = 5 \<and> (\<forall>(n', c') \<in> set ?top. count_list ?names n \<le> c'))"
      unfolding c [symmetric] by force
  qed
  have stat: "topServices (getSalonMetrics
        (db\<lparr>db_appointments := map (\<lambda>a. a\<lparr>apt_status := f a\<rparr>) (db_appointments db)\<rparr>)
        salonId startDate endDate) = ?top"
    by (simp only: topServices_eq appointmentsInRange_status serviceMap_appointments
        serviceCounts_status)
  from len srt dst cnt full stat show ?thesis by (intro conjI)
qed

theorem topServices_histogram_witness:
  "topServices (getSalonMetrics histogramScenario ''s1'' 0 1000) =
     [(''Coupe'', 4), (''Brushing'', 2), (''Soin'', 2), (''Couleur'', 1), (''Barbe'', 1)]
   \<and> topServices (getSalonMetrics
        (histogramScenario\<lparr>db_appointments :=
           map (\<lambda>a. a\<lparr>apt_status := ''completed''\<rparr>) (db_appointments histogramScenario)\<rparr>)
        ''s1'' 0 1000) =
     [(''Coupe'', 4), (''Brushing'', 2), (''Soin'', 2), (''Couleur'', 1), (''Barbe'', 1)]
   \<and> count_list (serviceNamesInRange histogramScenario ''s1'' 0 1000) ''Coupe'' = 4"
proof -
  have top: "topServices (getSalonMetrics histogramScenario ''s1'' 0 1000) =
     [(''Coupe'', 4), (''Brushing'', 2), (''Soin'', 2), (''Couleur'', 1), (''Barbe'', 1)]"
    by code_simp
  have same: "topServices (getSalonMetrics
        (histogramScenario\<lparr>db_appointments :=
           map (\<lambda>a. a\<lparr>apt_status := ''completed''\<rparr>) (db_appointments histogramScenario)\<rparr>)
        ''s1'' 0 1000) = topServices (getSalonMetrics histogramScenario ''s1'' 0 1000)"
    using topServices_histogram [of histogramScenario "''s1''" 0 1000 "\<lambda>a. ''completed''"]
    by blast
  have "(''Coupe'', 4) \<in> set (topServices (getSalonMetrics histogramScenario ''s1'' 0 1000))"
    by (simp add: top)
  with topServices_histogram [of histogramScenario "''s1''" 0 1000 "\<lambda>a. ''completed''"]
  have cnt: "count_list (serviceNamesInRange histogramScenario ''s1'' 0 1000) ''Coupe'' = 4"
    by fastforce
  from top same cnt show ?thesis by simp
qed

end
